theory Spec2Isabelle
  imports Complex_Main "HOL-Library.Sublist"
begin

section \<open>Numbers and strings of the host language\<close>

text \<open>
  A JavaScript Number is modelled as an exact rational, extended with \<open>NaN\<close> and the two
  infinities. The rounding of arithmetic results to binary64, overflow to an infinity and
  the sign of zero are not modelled: the quotient of two finite numbers is their exact
  quotient.
\<close>

datatype jsnum = Fin rat | NaN | PInf | NInf

text \<open>\<^verbatim>\<open>Number.isFinite(input)\<close>\<close>

fun Number_isFinite :: "jsnum \<Rightarrow> bool" where
  "Number_isFinite (Fin x) = True"
| "Number_isFinite NaN = False"
| "Number_isFinite PInf = False"
| "Number_isFinite NInf = False"

text \<open>\<^verbatim>\<open>input > 0\<close>: every comparison with \<open>NaN\<close> is false.\<close>

fun gt0 :: "jsnum \<Rightarrow> bool" where
  "gt0 (Fin x) = (0 < x)"
| "gt0 NaN = False"
| "gt0 PInf = True"
| "gt0 NInf = False"

text \<open>The operator \<^verbatim>\<open>/\<close> on Numbers (zero is taken as positive zero).\<close>

fun jsdiv :: "jsnum \<Rightarrow> jsnum \<Rightarrow> jsnum" where
  "jsdiv NaN b = NaN"
| "jsdiv a NaN = NaN"
| "jsdiv (Fin a) (Fin b) =
     (if b \<noteq> 0 then Fin (a / b)
      else if a = 0 then NaN else if 0 < a then PInf else NInf)"
| "jsdiv (Fin a) PInf = Fin 0"
| "jsdiv (Fin a) NInf = Fin 0"
| "jsdiv PInf (Fin b) = (if 0 \<le> b then PInf else NInf)"
| "jsdiv NInf (Fin b) = (if 0 \<le> b then NInf else PInf)"
| "jsdiv PInf PInf = NaN"
| "jsdiv PInf NInf = NaN"
| "jsdiv NInf PInf = NaN"
| "jsdiv NInf NInf = NaN"

subsection \<open>Decimal digits\<close>

definition digit_char :: "nat \<Rightarrow> char" where
  "digit_char d = char_of (48 + d)"

text \<open>The decimal representation of a natural number, most significant digit first.\<close>

function digits10 :: "nat \<Rightarrow> string" where
  "digits10 n = (if n < 10 then [digit_char n] else digits10 (n div 10) @ [digit_char (n mod 10)])"
  by pat_completeness auto
termination
  by (relation "measure id") auto

declare digits10.simps [simp del]

text \<open>
  \<^verbatim>\<open>Number.prototype.toFixed(1)\<close>, as ECMA-262 defines it. A non-finite number gives its
  name. Otherwise the sign is split off, and for a magnitude below \<open>10\<^sup>2\<^sup>1\<close> the integer
  \<open>n\<close> with \<open>n / 10\<close> nearest to the magnitude (the larger one of two) is written in
  decimal, padded to two digits, with a point before the last digit. From \<open>10\<^sup>2\<^sup>1\<close> on
  the result is the exponent notation of \<^verbatim>\<open>Number::toString\<close>, whose digits are those of
  the binary64 value: that branch is outside this number model and gives \<open>None\<close>.
\<close>

definition toFixed1 :: "jsnum \<Rightarrow> string option" where
  "toFixed1 v =
     (case v of
        NaN \<Rightarrow> Some ''NaN''
      | PInf \<Rightarrow> Some ''Infinity''
      | NInf \<Rightarrow> Some ''-Infinity''
      | Fin x0 \<Rightarrow>
          (let s = (if x0 < 0 then ''-'' else '''');
               x = (if x0 < 0 then - x0 else x0)
           in if 10 ^ 21 \<le> x then None
              else
                (let n = nat \<lfloor>x * 10 + 1 / 2\<rfloor>;
                     m0 = digits10 n;
                     m = (if length m0 \<le> 1 then replicate (2 - length m0) (CHR ''0'') @ m0 else m0);
                     k = length m;
                     a = take (k - 1) m;
                     b = drop (k - 1) m
                 in Some (s @ a @ ''.'' @ b))))"

subsection \<open>Reading a decimal string\<close>







section \<open>Values, objects and JSON\<close>

text \<open>
  A \<^verbatim>\<open>Date\<close> object is known to the program through \<^verbatim>\<open>getTime()\<close> (milliseconds since
  the epoch), \<^verbatim>\<open>getMonth()\<close> (0 to 11), \<^verbatim>\<open>getDate()\<close> (day of the month) and, inside
  \<^verbatim>\<open>JSON.stringify\<close>, through \<^verbatim>\<open>toISOString()\<close>. The record holds what the four calls
  return; \<^verbatim>\<open>new Date()\<close> is a reading of the clock handed to the constructors.
\<close>

record jsdate =
  getTime :: int
  getMonth :: nat
  getDate :: nat
  toISOString :: string

datatype cls = PlainObject | RunningClass | CyclingClass

text \<open>
  The values the program handles. An object is its class and its own properties in the
  order of their creation, with distinct names.
\<close>

datatype jsval =
    Undefined
  | Null
  | Bool bool
  | Num jsnum
  | Str string
  | DateObj jsdate
  | Arr "jsval list"
  | Obj cls "(string \<times> jsval) list"

datatype js_error = TypeError | SyntaxError

text \<open>\<^verbatim>\<open>!v\<close> is true for the falsy values.\<close>

fun truthy :: "jsval \<Rightarrow> bool" where
  "truthy Undefined = False"
| "truthy Null = False"
| "truthy (Bool b) = b"
| "truthy (Num n) = (n \<noteq> Fin 0 \<and> n \<noteq> NaN)"
| "truthy (Str s) = (s \<noteq> [])"
| "truthy (DateObj d) = True"
| "truthy (Arr xs) = True"
| "truthy (Obj c kvs) = True"

text \<open>
  Reading a property \<^verbatim>\<open>v.k\<close>: a TypeError on \<^verbatim>\<open>undefined\<close> and \<^verbatim>\<open>null\<close>, the property's
  value on an object that has it, \<^verbatim>\<open>undefined\<close> otherwise (none of the names the program
  reads exists on the prototype of a primitive, an array or a date).
\<close>

fun get_prop :: "jsval \<Rightarrow> string \<Rightarrow> js_error + jsval" where
  "get_prop Undefined k = Inl TypeError"
| "get_prop Null k = Inl TypeError"
| "get_prop (Obj c kvs) k = Inr (case map_of kvs k of None \<Rightarrow> Undefined | Some v \<Rightarrow> v)"
| "get_prop v k = Inr Undefined"

text \<open>The same on a value known not to be \<^verbatim>\<open>undefined\<close> or \<^verbatim>\<open>null\<close>.\<close>

definition read_prop :: "jsval \<Rightarrow> string \<Rightarrow> jsval" where
  "read_prop v k = (case get_prop v k of Inl e \<Rightarrow> Undefined | Inr x \<Rightarrow> x)"

text \<open>Assignment \<^verbatim>\<open>this.k = v\<close>: a new property goes to the end, an old one keeps its place.\<close>

fun set_prop :: "jsval \<Rightarrow> string \<Rightarrow> jsval \<Rightarrow> jsval" where
  "set_prop (Obj c kvs) k v =
     (if k \<in> fst ` set kvs then Obj c (map (\<lambda>(k', v'). if k' = k then (k', v) else (k', v')) kvs)
      else Obj c (kvs @ [(k, v)]))"
| "set_prop u k v = u"

text \<open>The Number of a value that is read as one; the program only divides Numbers.\<close>

fun num_of :: "jsval \<Rightarrow> jsnum" where
  "num_of (Num n) = n"
| "num_of v = NaN"

subsection \<open>JSON\<close>

text \<open>
  A JSON document. The text of a document is not modelled: a stored string is either the
  text of a document, identified with the document, or it is no JSON text at all. An object
  of a document lists its members as \<^verbatim>\<open>JSON.parse\<close> creates them.
\<close>

datatype json =
    JNull
  | JBool bool
  | JNum rat
  | JStr string
  | JArr "json list"
  | JObj "(string \<times> json) list"

datatype blob = JsonText json | Malformed

text \<open>
  What \<^verbatim>\<open>JSON.stringify\<close> writes for a value (\<open>None\<close>: nothing, the value is
  \<^verbatim>\<open>undefined\<close>). A date is written through its \<^verbatim>\<open>toJSON\<close>, a Number that is not finite
  as \<^verbatim>\<open>null\<close>; an array writes \<^verbatim>\<open>null\<close> for an element that writes nothing, an object
  leaves such a property out, and the class of an object is not written.
\<close>

fun JSON_value :: "jsval \<Rightarrow> json option" where
  "JSON_value Undefined = None"
| "JSON_value Null = Some JNull"
| "JSON_value (Bool b) = Some (JBool b)"
| "JSON_value (Num n) = Some (case n of Fin x \<Rightarrow> JNum x | _ \<Rightarrow> JNull)"
| "JSON_value (Str s) = Some (JStr s)"
| "JSON_value (DateObj d) = Some (JStr (toISOString d))"
| "JSON_value (Arr xs) =
     Some (JArr (map (\<lambda>x. case JSON_value x of None \<Rightarrow> JNull | Some j \<Rightarrow> j) xs))"
| "JSON_value (Obj c kvs) =
     Some (JObj (concat (map (\<lambda>(k, v). case JSON_value v of None \<Rightarrow> [] | Some j \<Rightarrow> [(k, j)]) kvs)))"

text \<open>
  \<^verbatim>\<open>JSON.stringify(v)\<close> as the string that \<^verbatim>\<open>setItem\<close> stores: \<^verbatim>\<open>undefined\<close> is stored
  as the text \<^verbatim>\<open>undefined\<close>, which is no JSON text.
\<close>

definition JSON_stringify :: "jsval \<Rightarrow> blob" where
  "JSON_stringify v = (case JSON_value v of None \<Rightarrow> Malformed | Some j \<Rightarrow> JsonText j)"

text \<open>The value \<^verbatim>\<open>JSON.parse\<close> builds from a document: plain objects, arrays, primitives.\<close>

fun revive :: "json \<Rightarrow> jsval" where
  "revive JNull = Null"
| "revive (JBool b) = Bool b"
| "revive (JNum x) = Num (Fin x)"
| "revive (JStr s) = Str s"
| "revive (JArr js) = Arr (map revive js)"
| "revive (JObj kvs) = Obj PlainObject (map (\<lambda>(k, j). (k, revive j)) kvs)"

text \<open>
  \<^verbatim>\<open>JSON.parse(x)\<close> for the result \<open>x\<close> of \<^verbatim>\<open>getItem\<close>: \<^verbatim>\<open>null\<close> (no such key) is
  converted to the text \<^verbatim>\<open>null\<close> first; a string that is no JSON text raises a
  SyntaxError.
\<close>

fun JSON_parse :: "blob option \<Rightarrow> js_error + jsval" where
  "JSON_parse None = Inr Null"
| "JSON_parse (Some Malformed) = Inl SyntaxError"
| "JSON_parse (Some (JsonText j)) = Inr (revive j)"

section \<open>The workout classes\<close>

text \<open>
  The result of a piece of code: a value, a raised error, or \<open>OutsideModel\<close> where the
  code formats a number of magnitude \<open>10\<^sup>2\<^sup>1\<close> or more (see \<open>toFixed1\<close>).
\<close>

datatype 'a result = Value 'a | Threw js_error | OutsideModel

text \<open>
  \<^verbatim>\<open>class Workout\<close>: the field initialisers \<^verbatim>\<open>date = new Date()\<close> and
  \<^verbatim>\<open>id = this.date.getTime()\<close> run first, then the constructor body. \<open>now\<close> is the
  reading of the clock, \<open>c\<close> the class being constructed.
\<close>

definition Workout :: "cls \<Rightarrow> jsdate \<Rightarrow> jsval \<Rightarrow> jsnum \<Rightarrow> jsnum \<Rightarrow> jsval" where
  "Workout c now coords distance duration =
     Obj c [(''date'', DateObj now),
            (''id'', Num (Fin (of_int (getTime now)))),
            (''coords'', coords),
            (''distance'', Num distance),
            (''duration'', Num duration)]"

definition months :: "string list" where
  "months = [''January'', ''February'', ''March'', ''April'', ''May'', ''June'', ''July'',
             ''August'', ''September'', ''October'', ''November'', ''December'']"

text \<open>\<^verbatim>\<open>toUpperCase()\<close> of one character, for the letters a to z.\<close>

definition toUpperCase :: "char \<Rightarrow> char" where
  "toUpperCase c =
     (let i = (of_char c :: nat) in if 97 \<le> i \<and> i \<le> 122 then char_of (i - 32) else c)"

text \<open>
  The template literal of \<^verbatim>\<open>_setDescription()\<close> spans four lines of the source, so
  the parts of the description are separated by a line feed and six spaces. \<open>t\<close> is the
  capitalised type.
\<close>

definition description_text :: "string \<Rightarrow> jsdate \<Rightarrow> string" where
  "description_text t d =
     t @ [CHR 0x0A] @ ''      on'' @ [CHR 0x0A] @ ''      ''
       @ (if getMonth d < 12 then months ! getMonth d else ''undefined'')
       @ [CHR 0x0A] @ ''      ''
       @ digits10 (getDate d)"

text \<open>
  \<^verbatim>\<open>_setDescription()\<close>: \<^verbatim>\<open>this.type[0].toUpperCase()\<close> and \<^verbatim>\<open>this.date.getMonth()\<close>
  raise on anything but a non-empty string and a date.
\<close>

definition setDescription :: "jsval \<Rightarrow> jsval result" where
  "setDescription this =
     (case (read_prop this ''type'', read_prop this ''date'') of
        (Str (c # cs), DateObj d) \<Rightarrow>
          Value (set_prop this ''description'' (Str (description_text (toUpperCase c # cs) d)))
      | _ \<Rightarrow> Threw TypeError)"

text \<open>\<^verbatim>\<open>calcPace()\<close>: min/km.\<close>

definition calcPace :: "jsval \<Rightarrow> jsval result" where
  "calcPace this =
     (case toFixed1 (jsdiv (num_of (read_prop this ''duration'')) (num_of (read_prop this ''distance''))) of
        None \<Rightarrow> OutsideModel
      | Some s \<Rightarrow> Value (set_prop this ''pace'' (Str s)))"

text \<open>\<^verbatim>\<open>calcSpeed()\<close>: km/h.\<close>

definition calcSpeed :: "jsval \<Rightarrow> jsval result" where
  "calcSpeed this =
     (case toFixed1 (jsdiv (num_of (read_prop this ''distance''))
                       (jsdiv (num_of (read_prop this ''duration'')) (Fin 60))) of
        None \<Rightarrow> OutsideModel
      | Some s \<Rightarrow> Value (set_prop this ''speed'' (Str s)))"

text \<open>\<^verbatim>\<open>class Running extends Workout\<close>\<close>

definition Running :: "jsdate \<Rightarrow> jsval \<Rightarrow> jsnum \<Rightarrow> jsnum \<Rightarrow> jsnum \<Rightarrow> jsval result" where
  "Running now coords distance duration cadence =
     (let this = Workout RunningClass now coords distance duration;
          this = set_prop this ''type'' (Str ''running'');
          this = set_prop this ''cadence'' (Num cadence)
      in case calcPace this of
           Value this' \<Rightarrow> setDescription this'
         | r \<Rightarrow> r)"

text \<open>\<^verbatim>\<open>class Cycling extends Workout\<close>\<close>

definition Cycling :: "jsdate \<Rightarrow> jsval \<Rightarrow> jsnum \<Rightarrow> jsnum \<Rightarrow> jsnum \<Rightarrow> jsval result" where
  "Cycling now coords distance duration elevation =
     (let this = Workout CyclingClass now coords distance duration;
          this = set_prop this ''type'' (Str ''cycling'');
          this = set_prop this ''elevation'' (Num elevation)
      in case calcSpeed this of
           Value this' \<Rightarrow> setDescription this'
         | r \<Rightarrow> r)"

section \<open>The application\<close>

text \<open>
  The calls the application makes on its collaborators (the map library, the page, the
  alert box), in the order it makes them. The collaborators are opaque: a call is recorded
  with the values the application passes and is taken to return normally.
\<close>

datatype call =
    L_map_setView "jsnum list" nat
  | L_tileLayer_addTo
  | map_on_click
  | L_icon
  | addEventListener string string
  | preventDefault
  | alert string
  | L_marker_bindPopup (marker_coords: jsval) (marker_type: jsval) (marker_description: jsval)
  | insertAdjacentHTML (html_type: jsval) (html_id: jsval) (html_description: jsval)
      (html_distance: jsval) (html_duration: jsval) (html_metric: jsval) (html_extra: jsval)
  | map_setView_animated jsval nat
  | form_show_and_focus
  | form_hide_and_clear
  | location_reload

text \<open>
  The state: the private fields \<^verbatim>\<open>#workouts\<close> and \<^verbatim>\<open>#mapEvent\<close> (the \<^verbatim>\<open>latlng\<close> of the
  stored click, \<open>None\<close> while the field is \<^verbatim>\<open>undefined\<close>), the browser's \<^verbatim>\<open>localStorage\<close>
  and the calls made so far. \<^verbatim>\<open>#map\<close> is set by the constructor before any handler can
  run and \<^verbatim>\<open>#mapZoomLevel\<close> is never assigned after its initialiser.
\<close>

record app =
  workouts :: jsval
  mapEvent :: "(jsnum \<times> jsnum) option"
  localStorage :: "string \<rightharpoonup> blob"
  calls :: "call list"

definition mapZoomLevel :: nat where
  "mapZoomLevel = 17"

definition do_call :: "call \<Rightarrow> app \<Rightarrow> app" where
  "do_call c st = st\<lparr>calls := calls st @ [c]\<rparr>"

text \<open>Statement sequencing: what follows runs only after a normal completion.\<close>

definition and_then :: "unit result \<times> app \<Rightarrow> (app \<Rightarrow> unit result \<times> app) \<Rightarrow> unit result \<times> app" where
  "and_then r f = (case r of (Value u, st) \<Rightarrow> f st | (e, st) \<Rightarrow> (e, st))"

text \<open>
  \<^verbatim>\<open>_loadMap(position)\<close>. The latitude and longitude are taken from the position (or are
  zero) and then not used; the view is set on the coordinates written in the source.
\<close>

definition loadMap :: "jsval \<Rightarrow> app \<Rightarrow> unit result \<times> app" where
  "loadMap position st =
     (let c = (case position of Undefined \<Rightarrow> Undefined | Null \<Rightarrow> Undefined
                | p \<Rightarrow> read_prop p ''coords'');
          (latitude, longitude) =
            (if truthy c then (read_prop c ''latitude'', read_prop c ''longitude'')
             else (Num (Fin 0), Num (Fin 0)));
          coords = [Fin (3627 / 100), Fin (4999435 / 100000)]
      in (Value (),
          do_call map_on_click (do_call L_tileLayer_addTo
            (do_call (L_map_setView coords mapZoomLevel) st))))"

definition setMarkerIcon :: "app \<Rightarrow> unit result \<times> app" where
  "setMarkerIcon st = (Value (), do_call L_icon st)"

text \<open>\<^verbatim>\<open>_setLocalStorage()\<close>\<close>

definition setLocalStorage :: "app \<Rightarrow> unit result \<times> app" where
  "setLocalStorage st =
     (Value (), st\<lparr>localStorage := (localStorage st)(''workouts'' \<mapsto> JSON_stringify (workouts st))\<rparr>)"

text \<open>
  The list entry that \<^verbatim>\<open>_renderWorkout\<close> inserts after the form: the fields of the
  workout that the template reads. The metric is \<open>speed\<close> or \<open>pace\<close> and the last value
  \<open>elevation\<close> or \<open>cadence\<close>, by the type.
\<close>

definition workout_html :: "jsval \<Rightarrow> call" where
  "workout_html workout =
     (let type = read_prop workout ''type'';
          isCycling = (type = Str ''cycling'')
      in insertAdjacentHTML type (read_prop workout ''id'')
           (read_prop workout ''description'')
           (read_prop workout ''distance'')
           (read_prop workout ''duration'')
           (read_prop workout (if isCycling then ''speed'' else ''pace''))
           (if isCycling then read_prop workout ''elevation'' else read_prop workout ''cadence''))"

text \<open>\<^verbatim>\<open>_renderWorkout(workout)\<close>: the first read, \<^verbatim>\<open>workout.type\<close>, raises on
  \<^verbatim>\<open>undefined\<close> and \<^verbatim>\<open>null\<close>.\<close>

definition renderWorkout :: "jsval \<Rightarrow> app \<Rightarrow> unit result \<times> app" where
  "renderWorkout workout st =
     (case get_prop workout ''type'' of
        Inl e \<Rightarrow> (Threw e, st)
      | Inr type \<Rightarrow> (Value (), do_call (workout_html workout) st))"

text \<open>The marker with its popup: coordinates, type and description of the workout.\<close>

definition workout_marker :: "jsval \<Rightarrow> call" where
  "workout_marker workout =
     L_marker_bindPopup (read_prop workout ''coords'') (read_prop workout ''type'')
       (read_prop workout ''description'')"

text \<open>\<^verbatim>\<open>_renderWorkoutMarker(workout)\<close>\<close>

definition renderWorkoutMarker :: "jsval \<Rightarrow> app \<Rightarrow> unit result \<times> app" where
  "renderWorkoutMarker workout st =
     (case get_prop workout ''type'' of
        Inl e \<Rightarrow> (Threw e, st)
      | Inr type \<Rightarrow> (Value (), do_call (workout_marker workout) st))"

text \<open>\<^verbatim>\<open>array.forEach(f)\<close>: an error raised by \<open>f\<close> ends the loop.\<close>

fun forEach :: "(jsval \<Rightarrow> app \<Rightarrow> unit result \<times> app) \<Rightarrow> jsval list \<Rightarrow> app \<Rightarrow> unit result \<times> app" where
  "forEach f [] st = (Value (), st)"
| "forEach f (x # xs) st =
     (case f x st of (Value u, st') \<Rightarrow> forEach f xs st' | (e, st') \<Rightarrow> (e, st'))"

text \<open>\<^verbatim>\<open>_getLocalStorage()\<close>\<close>

definition getLocalStorage :: "app \<Rightarrow> unit result \<times> app" where
  "getLocalStorage st =
     (case JSON_parse (localStorage st ''workouts'') of
        Inl e \<Rightarrow> (Threw e, st)
      | Inr data \<Rightarrow>
          if \<not> truthy data then (Value (), st)
          else
            (let st1 = st\<lparr>workouts := data\<rparr>
             in case workouts st1 of
                  Arr ws \<Rightarrow>
                    forEach (\<lambda>work s. and_then (renderWorkout work s) (renderWorkoutMarker work)) ws st1
                | _ \<Rightarrow> (Threw TypeError, st1)))"


definition hideForm :: "app \<Rightarrow> unit result \<times> app" where
  "hideForm st = (Value (), do_call form_hide_and_clear st)"

text \<open>
  The form as \<^verbatim>\<open>_newWorkout\<close> reads it: the value of the type selector and the four
  fields after the conversion \<^verbatim>\<open>+input.value\<close>.
\<close>

record form =
  inputType :: string
  inputDistance :: jsnum
  inputDuration :: jsnum
  inputCadence :: jsnum
  inputElevation :: jsnum

definition validInputs :: "jsnum list \<Rightarrow> bool" where
  "validInputs inputs = list_all Number_isFinite inputs"

definition allPositive :: "jsnum list \<Rightarrow> bool" where
  "allPositive inputs = list_all gt0 inputs"

text \<open>\<^verbatim>\<open>this.#workouts.push(workout)\<close>\<close>

definition push :: "jsval \<Rightarrow> app \<Rightarrow> unit result \<times> app" where
  "push workout st =
     (case workouts st of
        Arr ws \<Rightarrow> (Value (), st\<lparr>workouts := Arr (ws @ [workout])\<rparr>)
      | _ \<Rightarrow> (Threw TypeError, st))"

text \<open>
  \<^verbatim>\<open>_newWorkout(e)\<close>, with the form's values and the reading of the clock that
  \<^verbatim>\<open>new Date()\<close> takes when a workout is constructed. The two \<^verbatim>\<open>if\<close> statements on the
  type follow each other; with any other type \<^verbatim>\<open>workout\<close> stays \<^verbatim>\<open>undefined\<close>.
\<close>

definition newWorkout :: "form \<Rightarrow> jsdate \<Rightarrow> app \<Rightarrow> unit result \<times> app" where
  "newWorkout f now st0 =
     (let st = do_call preventDefault st0
      in case mapEvent st of
           None \<Rightarrow> (Threw TypeError, st)
         | Some (lat, lng) \<Rightarrow>
             (let coords = Arr [Num lat, Num lng];
                  type = inputType f;
                  distance = inputDistance f;
                  duration = inputDuration f;
                  cadence = inputCadence f;
                  elevation = inputElevation f
              in if type = ''running'' \<and>
                    (\<not> validInputs [distance, duration, cadence] \<or>
                     \<not> allPositive [distance, duration, cadence])
                 then (Value (), do_call (alert ''inputs have to be posetive numbers'') st)
                 else if type = ''cycling'' \<and>
                    (\<not> validInputs [distance, duration, elevation] \<or>
                     \<not> allPositive [distance, duration])
                 then (Value (), do_call (alert ''inputs have to be posetive numbers'') st)
                 else
                   (case (if type = ''running'' then Running now coords distance duration cadence
                          else if type = ''cycling'' then Cycling now coords distance duration elevation
                          else Value Undefined) of
                      Value workout \<Rightarrow>
                        and_then (and_then (and_then (and_then (push workout st)
                          setLocalStorage)
                          (renderWorkoutMarker workout))
                          (renderWorkout workout))
                          hideForm
                    | Threw e \<Rightarrow> (Threw e, st)
                    | OutsideModel \<Rightarrow> (OutsideModel, st))))"

text \<open>
  A click in the list of workouts: \<open>None\<close> when no element of class \<^verbatim>\<open>workout\<close> encloses
  the target, otherwise the Number \<^verbatim>\<open>+workoutEl.dataset.id\<close>.
\<close>

type_synonym click = "jsnum option"

text \<open>\<^verbatim>\<open>work.id === id\<close> with a Number on the right.\<close>

fun strict_eq_num :: "jsval \<Rightarrow> jsnum \<Rightarrow> bool" where
  "strict_eq_num (Num n) m = (n = m \<and> n \<noteq> NaN)"
| "strict_eq_num v m = False"

text \<open>\<^verbatim>\<open>array.find(work => work.id === id)\<close>\<close>

fun find_id :: "jsval list \<Rightarrow> jsnum \<Rightarrow> jsval result" where
  "find_id [] ident = Value Undefined"
| "find_id (work # ws) ident =
     (case get_prop work ''id'' of
        Inl e \<Rightarrow> Threw e
      | Inr v \<Rightarrow> if strict_eq_num v ident then Value work else find_id ws ident)"

text \<open>\<^verbatim>\<open>_moveToPopup(e)\<close>\<close>

definition moveToPopup :: "click \<Rightarrow> app \<Rightarrow> unit result \<times> app" where
  "moveToPopup e st =
     (case e of
        None \<Rightarrow> (Value (), st)
      | Some ident \<Rightarrow>
          (case (case workouts st of Arr ws \<Rightarrow> find_id ws ident | _ \<Rightarrow> Threw TypeError) of
             Value workoutObj \<Rightarrow>
               (case get_prop workoutObj ''coords'' of
                  Inl err \<Rightarrow> (Threw err, st)
                | Inr coords \<Rightarrow> (Value (), do_call (map_setView_animated coords mapZoomLevel) st))
           | Threw err \<Rightarrow> (Threw err, st)
           | OutsideModel \<Rightarrow> (OutsideModel, st)))"

text \<open>
  \<^verbatim>\<open>new App()\<close> on a given content of \<^verbatim>\<open>localStorage\<close>: the field initialisers, then the
  constructor body. \<^verbatim>\<open>_loadMap\<close> is called without a position.
\<close>

definition App :: "(string \<rightharpoonup> blob) \<Rightarrow> unit result \<times> app" where
  "App ls =
     (let this = \<lparr>workouts = Arr [], mapEvent = None, localStorage = ls, calls = []\<rparr>
      in and_then (and_then (and_then (loadMap Undefined this)
           setMarkerIcon)
           getLocalStorage)
           (\<lambda>st. (Value (),
              do_call (addEventListener ''containerWorkouts'' ''click'')
                (do_call (addEventListener ''form'' ''submit'')
                  (do_call (addEventListener ''inputType'' ''change'') st)))))"

text \<open>\<^verbatim>\<open>reset()\<close>: the key is removed and the page is asked to reload.\<close>

definition reset :: "app \<Rightarrow> unit result \<times> app" where
  "reset st =
     (Value (), do_call location_reload (st\<lparr>localStorage := (localStorage st)(''workouts'' := None)\<rparr>))"

section \<open>Sessions and persistence\<close>





text \<open>
  Saving a sequence of records: the storage after \<^verbatim>\<open>_setLocalStorage()\<close> of an application
  that holds them. Loading: the workouts after \<^verbatim>\<open>_getLocalStorage()\<close> of a new application
  on that storage.
\<close>

definition saved :: "jsval list \<Rightarrow> (string \<rightharpoonup> blob)" where
  "saved records =
     localStorage (snd (setLocalStorage
       \<lparr>workouts = Arr records, mapEvent = None, localStorage = Map.empty, calls = []\<rparr>))"

definition loaded :: "(string \<rightharpoonup> blob) \<Rightarrow> jsval" where
  "loaded ls =
     workouts (snd (getLocalStorage
       \<lparr>workouts = Arr [], mapEvent = None, localStorage = ls, calls = []\<rparr>))"

text \<open>
  The flattened form of a record: a plain object with the same properties in the same
  order, a date replaced by its ISO string.
\<close>

fun plain_copy :: "jsval \<Rightarrow> jsval" where
  "plain_copy (Obj c kvs) =
     Obj PlainObject (map (\<lambda>(k, v). (k, case v of DateObj d \<Rightarrow> Str (toISOString d) | _ \<Rightarrow> v)) kvs)"
| "plain_copy v = v"

text \<open>
  A valid record: what a constructor returns for inputs that pass the checks of
  \<^verbatim>\<open>_newWorkout\<close>, at finite coordinates, or such a record as an earlier session has
  stored it.
\<close>

inductive valid_record :: "jsval \<Rightarrow> bool" where
  running:
    "\<lbrakk>validInputs [distance, duration, cadence]; allPositive [distance, duration, cadence];
      validInputs [lat, lng];
      Running now (Arr [Num lat, Num lng]) distance duration cadence = Value w\<rbrakk>
     \<Longrightarrow> valid_record w"
| cycling:
    "\<lbrakk>validInputs [distance, duration, elevation]; allPositive [distance, duration];
      validInputs [lat, lng];
      Cycling now (Arr [Num lat, Num lng]) distance duration elevation = Value w\<rbrakk>
     \<Longrightarrow> valid_record w"
| stored:
    "valid_record w \<Longrightarrow> valid_record (plain_copy w)"

section \<open>Sample inputs\<close>

text \<open>A reading of the clock and a state in which a click on the map is stored.\<close>

definition sample_date :: jsdate where
  "sample_date = \<lparr>getTime = 1700000000000, getMonth = 10, getDate = 14,
                   toISOString = ''2023-11-14T22:13:20.000Z''\<rparr>"

definition form_open :: app where
  "form_open = \<lparr>workouts = Arr [], mapEvent = Some (Fin (3627 / 100), Fin (4999 / 100)),
                 localStorage = Map.empty, calls = []\<rparr>"

definition sample_form :: "string \<Rightarrow> jsnum \<Rightarrow> jsnum \<Rightarrow> jsnum \<Rightarrow> jsnum \<Rightarrow> form" where
  "sample_form t distance duration cadence elevation =
     \<lparr>inputType = t, inputDistance = distance, inputDuration = duration,
      inputCadence = cadence, inputElevation = elevation\<rparr>"

text \<open>Two stored records, as \<^verbatim>\<open>_setLocalStorage\<close> writes them.\<close>

definition stored_run :: json where
  "stored_run = JObj [(''date'', JStr ''2023-11-14T22:13:20.000Z''), (''id'', JNum 1700000000000),
                      (''coords'', JArr [JNum (3627 / 100), JNum (4999 / 100)]),
                      (''distance'', JNum 5), (''duration'', JNum 25),
                      (''type'', JStr ''running''), (''cadence'', JNum 180),
                      (''pace'', JStr ''5.0''), (''description'', JStr ''Running on November 14'')]"

definition stored_ride :: json where
  "stored_ride = JObj [(''date'', JStr ''2023-11-15T08:00:00.000Z''), (''id'', JNum 1700035200000),
                       (''coords'', JArr [JNum (3628 / 100), JNum 50]),
                       (''distance'', JNum 20), (''duration'', JNum 45),
                       (''type'', JStr ''cycling''), (''elevation'', JNum (- 3)),
                       (''speed'', JStr ''26.7''), (''description'', JStr ''Cycling on November 15'')]"

text \<open>The records that the constructors build at the sample date.\<close>

definition sample_run :: jsval where
  "sample_run =
     Obj RunningClass
       [(''date'', DateObj sample_date), (''id'', Num (Fin 1700000000000)),
        (''coords'', Arr [Num (Fin (3627 / 100)), Num (Fin (4999 / 100))]),
        (''distance'', Num (Fin 5)), (''duration'', Num (Fin 25)),
        (''type'', Str ''running''), (''cadence'', Num (Fin 180)),
        (''pace'', Str ''5.0''),
        (''description'', Str (description_text ''Running'' sample_date))]"

definition sample_ride :: jsval where
  "sample_ride =
     Obj CyclingClass
       [(''date'', DateObj sample_date), (''id'', Num (Fin 1700000000000)),
        (''coords'', Arr [Num (Fin (3628 / 100)), Num (Fin 50)]),
        (''distance'', Num (Fin 20)), (''duration'', Num (Fin 45)),
        (''type'', Str ''cycling''), (''elevation'', Num (Fin (- 3))),
        (''speed'', Str ''26.7''),
        (''description'', Str (description_text ''Cycling'' sample_date))]"


section \<open>Theorems\<close>


subsection \<open>Decimal strings\<close>














lemma toUpperCase_r: "toUpperCase CHR ''r'' = CHR ''R''"
  by code_simp

lemma toUpperCase_c: "toUpperCase CHR ''c'' = CHR ''C''"
  by code_simp

subsection \<open>The constructed records\<close>

lemma Running_Value:
  assumes "toFixed1 (jsdiv duration distance) = Some s"
  shows "Running now coords distance duration cadence =
          Value (Obj RunningClass
            [(''date'', DateObj now),
             (''id'', Num (Fin (of_int (getTime now)))),
             (''coords'', coords),
             (''distance'', Num distance),
             (''duration'', Num duration),
             (''type'', Str ''running''),
             (''cadence'', Num cadence),
             (''pace'', Str s),
             (''description'', Str (description_text ''Running'' now))])"
  using assms
  by (simp add: Running_def Workout_def calcPace_def setDescription_def read_prop_def
        toUpperCase_r)

lemma Cycling_Value:
  assumes "toFixed1 (jsdiv distance (jsdiv duration (Fin 60))) = Some s"
  shows "Cycling now coords distance duration elevation =
          Value (Obj CyclingClass
            [(''date'', DateObj now),
             (''id'', Num (Fin (of_int (getTime now)))),
             (''coords'', coords),
             (''distance'', Num distance),
             (''duration'', Num duration),
             (''type'', Str ''cycling''),
             (''elevation'', Num elevation),
             (''speed'', Str s),
             (''description'', Str (description_text ''Cycling'' now))])"
  using assms
  by (simp add: Cycling_def Workout_def calcSpeed_def setDescription_def read_prop_def
        toUpperCase_c)

subsection \<open>Derived metrics\<close>





subsection \<open>The map\<close>

text \<open>
  C9. Whatever is passed to \<^verbatim>\<open>_loadMap\<close>, a geolocation position included, the view is
  set on the fixed coordinates [36.27, 49.99435] at zoom level 17: the latitude and
  longitude taken from the position are not used.
\<close>

theorem loadMap_fixed_center:
  "loadMap position st =
     (Value (), st\<lparr>calls := calls st @
        [L_map_setView [Fin (3627 / 100), Fin (4999435 / 100000)] 17,
         L_tileLayer_addTo, map_on_click]\<rparr>)"
  by (simp add: loadMap_def do_call_def mapZoomLevel_def Let_def split: prod.splits)

subsection \<open>Submitting the form\<close>

lemma newWorkout_rejected:
  assumes "mapEvent st = Some ev"
      and "inputType f = ''running'' \<and>
             (\<not> validInputs [inputDistance f, inputDuration f, inputCadence f] \<or>
              \<not> allPositive [inputDistance f, inputDuration f, inputCadence f])
           \<or> inputType f = ''cycling'' \<and>
             (\<not> validInputs [inputDistance f, inputDuration f, inputElevation f] \<or>
              \<not> allPositive [inputDistance f, inputDuration f])"
  shows "newWorkout f now st =
           (Value (), st\<lparr>calls := calls st @ [preventDefault, alert ''inputs have to be posetive numbers'']\<rparr>)"
proof -
  obtain lat lng where ev: "ev = (lat, lng)" by (cases ev)
  from assms(2) show ?thesis
    unfolding newWorkout_def Let_def using assms(1) ev
    by (auto simp: do_call_def)
qed

lemma newWorkout_no_click:
  assumes "mapEvent st = None"
  shows "newWorkout f now st = (Threw TypeError, st\<lparr>calls := calls st @ [preventDefault]\<rparr>)"
  using assms by (simp add: newWorkout_def do_call_def)

text \<open>
  C6. With the type running or cycling, a submission whose distance is 0, whose duration is
  -1, whose cadence is NaN (running) or whose elevation is Infinity (cycling) leaves the
  workouts and the storage as they were; when a click on the map is stored (the form is
  open) it ends in the alert and nothing else, and without a stored click the handler
  raises on reading the click before any check.
\<close>

theorem validation_rejects:
  assumes "inputType f = ''running'' \<or> inputType f = ''cycling''"
      and "inputDistance f = Fin 0 \<or> inputDuration f = Fin (- 1)
           \<or> inputType f = ''running'' \<and> inputCadence f = NaN
           \<or> inputType f = ''cycling'' \<and> inputElevation f = PInf"
  shows "workouts (snd (newWorkout f now st)) = workouts st
       \<and> localStorage (snd (newWorkout f now st)) = localStorage st
       \<and> (mapEvent st = None \<longrightarrow>
             newWorkout f now st = (Threw TypeError, st\<lparr>calls := calls st @ [preventDefault]\<rparr>))
       \<and> (mapEvent st \<noteq> None \<longrightarrow>
             newWorkout f now st =
               (Value (), st\<lparr>calls := calls st @
                  [preventDefault, alert ''inputs have to be posetive numbers'']\<rparr>))"
proof (cases "mapEvent st")
  case None
  then show ?thesis by (simp add: newWorkout_no_click)
next
  case (Some ev)
  have "inputType f = ''running'' \<and>
             (\<not> validInputs [inputDistance f, inputDuration f, inputCadence f] \<or>
              \<not> allPositive [inputDistance f, inputDuration f, inputCadence f])
           \<or> inputType f = ''cycling'' \<and>
             (\<not> validInputs [inputDistance f, inputDuration f, inputElevation f] \<or>
              \<not> allPositive [inputDistance f, inputDuration f])"
    using assms by (auto simp: validInputs_def allPositive_def)
  from newWorkout_rejected [OF Some this] Some show ?thesis by simp
qed

theorem validation_rejects_witness:
  "newWorkout (sample_form ''running'' (Fin 0) (Fin 25) (Fin 180) (Fin 0)) sample_date form_open
     = (Value (), form_open\<lparr>calls := [preventDefault, alert ''inputs have to be posetive numbers'']\<rparr>)
   \<and> newWorkout (sample_form ''cycling'' (Fin 5) (Fin (- 1)) (Fin 0) (Fin 100)) sample_date form_open
     = (Value (), form_open\<lparr>calls := [preventDefault, alert ''inputs have to be posetive numbers'']\<rparr>)
   \<and> newWorkout (sample_form ''running'' (Fin 5) (Fin 25) NaN (Fin 0)) sample_date form_open
     = (Value (), form_open\<lparr>calls := [preventDefault, alert ''inputs have to be posetive numbers'']\<rparr>)
   \<and> newWorkout (sample_form ''cycling'' (Fin 5) (Fin 25) (Fin 0) PInf) sample_date form_open
     = (Value (), form_open\<lparr>calls := [preventDefault, alert ''inputs have to be posetive numbers'']\<rparr>)"
  using validation_rejects [of "sample_form ''running'' (Fin 0) (Fin 25) (Fin 180) (Fin 0)" sample_date form_open]
        validation_rejects [of "sample_form ''cycling'' (Fin 5) (Fin (- 1)) (Fin 0) (Fin 100)" sample_date form_open]
        validation_rejects [of "sample_form ''running'' (Fin 5) (Fin 25) NaN (Fin 0)" sample_date form_open]
        validation_rejects [of "sample_form ''cycling'' (Fin 5) (Fin 25) (Fin 0) PInf" sample_date form_open]
  by (simp add: sample_form_def form_open_def)

text \<open>
  C10. When the type selector holds neither running nor cycling, a submission with a stored
  click checks none of the fields: \<^verbatim>\<open>undefined\<close> is appended to the workouts and the
  collection is written to the storage with that entry (as \<^verbatim>\<open>null\<close>, the way
  \<^verbatim>\<open>JSON.stringify\<close> writes it). The handler then raises in \<^verbatim>\<open>_renderWorkoutMarker\<close>.
\<close>

theorem unknown_type_pushes_undefined:
  assumes "inputType f \<noteq> ''running''" and "inputType f \<noteq> ''cycling''"
      and "mapEvent st = Some ev" and "workouts st = Arr ws"
  shows "newWorkout f now st =
           (Threw TypeError,
            st\<lparr>workouts := Arr (ws @ [Undefined]),
               localStorage := (localStorage st)(''workouts'' \<mapsto>
                 JsonText (JArr (map (\<lambda>x. case JSON_value x of None \<Rightarrow> JNull | Some j \<Rightarrow> j) ws @ [JNull]))),
               calls := calls st @ [preventDefault]\<rparr>)"
proof -
  obtain lat lng where ev: "ev = (lat, lng)" by (cases ev)
  show ?thesis
    using assms ev
    by (simp add: newWorkout_def do_call_def push_def setLocalStorage_def and_then_def
          renderWorkoutMarker_def JSON_stringify_def Let_def)
qed

theorem unknown_type_pushes_undefined_witness:
  "newWorkout (sample_form ''swimming'' (Fin 0) NaN PInf (Fin (- 1))) sample_date form_open =
     (Threw TypeError,
      form_open\<lparr>workouts := Arr [Undefined],
        localStorage := [''workouts'' \<mapsto> JsonText (JArr [JNull])],
        calls := [preventDefault]\<rparr>)"
  using unknown_type_pushes_undefined
    [of "sample_form ''swimming'' (Fin 0) NaN PInf (Fin (- 1))" form_open
        "(Fin (3627 / 100), Fin (4999 / 100))" "[]" sample_date]
  by (simp add: sample_form_def form_open_def)

subsection \<open>Loading at start-up\<close>

lemma getLocalStorage_absent:
  "localStorage st ''workouts'' = None \<Longrightarrow> getLocalStorage st = (Value (), st)"
  by (simp add: getLocalStorage_def)

text \<open>
  C2, as stated, fails: on a stored string that is no JSON text \<^verbatim>\<open>_getLocalStorage\<close> raises
  the SyntaxError of \<^verbatim>\<open>JSON.parse\<close>, and the constructor of the application ends there,
  before the handlers are attached.
\<close>

theorem load_malformed_raises:
  "getLocalStorage \<lparr>workouts = Arr [], mapEvent = None,
                    localStorage = [''workouts'' \<mapsto> Malformed], calls = []\<rparr>
     = (Threw SyntaxError,
        \<lparr>workouts = Arr [], mapEvent = None,
         localStorage = [''workouts'' \<mapsto> Malformed], calls = []\<rparr>)
   \<and> App [''workouts'' \<mapsto> Malformed]
     = (Threw SyntaxError,
        \<lparr>workouts = Arr [], mapEvent = None, localStorage = [''workouts'' \<mapsto> Malformed],
         calls = [L_map_setView [Fin (3627 / 100), Fin (4999435 / 100000)] 17,
                  L_tileLayer_addTo, map_on_click, L_icon]\<rparr>)"
  by (simp add: getLocalStorage_def App_def loadMap_def setMarkerIcon_def and_then_def
        do_call_def mapZoomLevel_def)

text \<open>
  C2, amended. When the key is absent \<^verbatim>\<open>_getLocalStorage\<close> returns without an error and
  changes nothing, and the application starts with no workouts and attaches its handlers.
\<close>

theorem load_absent_key:
  assumes "localStorage st ''workouts'' = None"
  shows "getLocalStorage st = (Value (), st)
       \<and> App (localStorage st) =
           (Value (),
            \<lparr>workouts = Arr [], mapEvent = None, localStorage = localStorage st,
             calls = [L_map_setView [Fin (3627 / 100), Fin (4999435 / 100000)] 17,
                      L_tileLayer_addTo, map_on_click, L_icon,
                      addEventListener ''inputType'' ''change'',
                      addEventListener ''form'' ''submit'',
                      addEventListener ''containerWorkouts'' ''click'']\<rparr>)"
  using assms
  by (simp add: getLocalStorage_def App_def loadMap_def setMarkerIcon_def and_then_def
        do_call_def mapZoomLevel_def)

theorem load_absent_key_witness:
  "getLocalStorage form_open = (Value (), form_open)
   \<and> App Map.empty =
           (Value (),
            \<lparr>workouts = Arr [], mapEvent = None, localStorage = Map.empty,
             calls = [L_map_setView [Fin (3627 / 100), Fin (4999435 / 100000)] 17,
                      L_tileLayer_addTo, map_on_click, L_icon,
                      addEventListener ''inputType'' ''change'',
                      addEventListener ''form'' ''submit'',
                      addEventListener ''containerWorkouts'' ''click'']\<rparr>)"
  using load_absent_key [of form_open] by (simp add: form_open_def)

lemma get_prop_revive: "j \<noteq> JNull \<Longrightarrow> \<exists>v. get_prop (revive j) k = Inr v"
  by (cases j) simp_all

lemma forEach_render:
  assumes "\<forall>w \<in> set ws. \<exists>v. get_prop w ''type'' = Inr v"
  shows "forEach (\<lambda>work s. and_then (renderWorkout work s) (renderWorkoutMarker work)) ws st =
           (Value (), st\<lparr>calls := calls st @ concat (map (\<lambda>w. [workout_html w, workout_marker w]) ws)\<rparr>)"
  using assms
proof (induction ws arbitrary: st)
  case Nil
  show ?case by simp
next
  case (Cons w ws)
  from Cons.prems obtain v where v: "get_prop w ''type'' = Inr v" by auto
  have step: "and_then (renderWorkout w st) (renderWorkoutMarker w) =
          (Value (), st\<lparr>calls := calls st @ [workout_html w, workout_marker w]\<rparr>)"
    using v by (simp add: and_then_def renderWorkout_def renderWorkoutMarker_def do_call_def)
  from Cons.prems have "\<forall>w \<in> set ws. \<exists>v. get_prop w ''type'' = Inr v" by simp
  from Cons.IH [OF this] step show ?case by simp
qed

text \<open>
  C8. At start-up, with an array of records in the storage, the workouts become the records
  in the stored order, each record is rendered as a list entry and then as a marker, in
  that order, and the storage is left as it was. (An entry \<^verbatim>\<open>null\<close> is no record: rendering
  it raises.)
\<close>

theorem hydration_replays:
  assumes "ls ''workouts'' = Some (JsonText (JArr js))" and "JNull \<notin> set js"
  shows "App ls =
           (Value (),
            \<lparr>workouts = Arr (map revive js), mapEvent = None, localStorage = ls,
             calls = [L_map_setView [Fin (3627 / 100), Fin (4999435 / 100000)] 17,
                      L_tileLayer_addTo, map_on_click, L_icon]
                     @ concat (map (\<lambda>w. [workout_html w, workout_marker w]) (map revive js))
                     @ [addEventListener ''inputType'' ''change'',
                        addEventListener ''form'' ''submit'',
                        addEventListener ''containerWorkouts'' ''click'']\<rparr>)"
proof -
  have "\<forall>w \<in> set (map revive js). \<exists>v. get_prop w ''type'' = Inr v"
    using assms(2) get_prop_revive by (metis (no_types) imageE list.set_map)
  from forEach_render [OF this] assms(1) show ?thesis
    by (simp add: getLocalStorage_def App_def loadMap_def setMarkerIcon_def and_then_def
          do_call_def mapZoomLevel_def)
qed

theorem hydration_replays_witness:
  "App [''workouts'' \<mapsto> JsonText (JArr [stored_run, stored_ride])] =
     (Value (),
      \<lparr>workouts = Arr [revive stored_run, revive stored_ride], mapEvent = None,
       localStorage = [''workouts'' \<mapsto> JsonText (JArr [stored_run, stored_ride])],
       calls = [L_map_setView [Fin (3627 / 100), Fin (4999435 / 100000)] 17,
                L_tileLayer_addTo, map_on_click, L_icon,
                insertAdjacentHTML (Str ''running'') (Num (Fin 1700000000000))
                  (Str ''Running on November 14'') (Num (Fin 5)) (Num (Fin 25)) (Str ''5.0'')
                  (Num (Fin 180)),
                L_marker_bindPopup (Arr [Num (Fin (3627 / 100)), Num (Fin (4999 / 100))])
                  (Str ''running'') (Str ''Running on November 14''),
                insertAdjacentHTML (Str ''cycling'') (Num (Fin 1700035200000))
                  (Str ''Cycling on November 15'') (Num (Fin 20)) (Num (Fin 45)) (Str ''26.7'')
                  (Num (Fin (- 3))),
                L_marker_bindPopup (Arr [Num (Fin (3628 / 100)), Num (Fin 50)])
                  (Str ''cycling'') (Str ''Cycling on November 15''),
                addEventListener ''inputType'' ''change'',
                addEventListener ''form'' ''submit'',
                addEventListener ''containerWorkouts'' ''click'']\<rparr>)"
  using hydration_replays
    [of "[''workouts'' \<mapsto> JsonText (JArr [stored_run, stored_ride])]" "[stored_run, stored_ride]"]
  by (simp add: stored_run_def stored_ride_def workout_html_def workout_marker_def read_prop_def)

subsection \<open>Saving and loading\<close>

lemma Running_inv:
  assumes "Running now coords distance duration cadence = Value w"
  shows "\<exists>s. toFixed1 (jsdiv duration distance) = Some s"
proof (cases "toFixed1 (jsdiv duration distance)")
  case None
  with assms show ?thesis
    by (simp add: Running_def Workout_def calcPace_def read_prop_def)
next
  case (Some s)
  then show ?thesis by simp
qed

lemma Cycling_inv:
  assumes "Cycling now coords distance duration elevation = Value w"
  shows "\<exists>s. toFixed1 (jsdiv distance (jsdiv duration (Fin 60))) = Some s"
proof (cases "toFixed1 (jsdiv distance (jsdiv duration (Fin 60)))")
  case None
  with assms show ?thesis
    by (simp add: Cycling_def Workout_def calcSpeed_def read_prop_def)
next
  case (Some s)
  then show ?thesis by simp
qed

lemma sample_run_built:
  "Running sample_date (Arr [Num (Fin (3627 / 100)), Num (Fin (4999 / 100))]) (Fin 5) (Fin 25) (Fin 180)
     = Value sample_run"
proof -
  have "toFixed1 (jsdiv (Fin 25) (Fin 5)) = Some ''5.0''" by code_simp
  from Running_Value [OF this] show ?thesis by (simp add: sample_run_def sample_date_def)
qed

lemma sample_ride_built:
  "Cycling sample_date (Arr [Num (Fin (3628 / 100)), Num (Fin 50)]) (Fin 20) (Fin 45) (Fin (- 3))
     = Value sample_ride"
proof -
  have "toFixed1 (jsdiv (Fin 20) (jsdiv (Fin 45) (Fin 60))) = Some ''26.7''" by code_simp
  from Cycling_Value [OF this] show ?thesis by (simp add: sample_ride_def sample_date_def)
qed

lemma valid_sample_run: "valid_record sample_run"
  by (rule valid_record.running [OF _ _ _ sample_run_built])
     (simp_all add: validInputs_def allPositive_def)

lemma valid_sample_ride: "valid_record sample_ride"
  by (rule valid_record.cycling [OF _ _ _ sample_ride_built])
     (simp_all add: validInputs_def allPositive_def)

lemma finite_cases: "Number_isFinite n \<Longrightarrow> \<exists>x. n = Fin x"
  by (cases n) simp_all

lemma forEach_workouts:
  assumes "\<And>x s1. workouts (snd (f x s1)) = workouts s1"
  shows "workouts (snd (forEach f ws s)) = workouts s"
proof (induction ws arbitrary: s)
  case Nil
  show ?case by simp
next
  case (Cons x xs)
  obtain r1 s1 where fx: "f x s = (r1, s1)" by (cases "f x s")
  with assms [of x s] have eq: "workouts s1 = workouts s" by simp
  show ?case
  proof (cases r1)
    case (Value u)
    with fx Cons.IH [of s1] eq show ?thesis by simp
  next
    case (Threw e)
    with fx eq show ?thesis by simp
  next
    case OutsideModel
    with fx eq show ?thesis by simp
  qed
qed

lemma render_workouts:
  "workouts (snd (and_then (renderWorkout x s) (renderWorkoutMarker x))) = workouts s"
  by (simp add: and_then_def renderWorkout_def renderWorkoutMarker_def do_call_def
        split: sum.splits)

lemma loaded_saved:
  "loaded (saved ws) =
     Arr (map (\<lambda>w. revive (case JSON_value w of None \<Rightarrow> JNull | Some j \<Rightarrow> j)) ws)"
proof -
  have "workouts (snd (forEach (\<lambda>work s. and_then (renderWorkout work s) (renderWorkoutMarker work))
          xs st)) = workouts st" for xs st
    by (rule forEach_workouts) (rule render_workouts)
  then show ?thesis
    by (simp add: loaded_def saved_def setLocalStorage_def JSON_stringify_def
          getLocalStorage_def comp_def)
qed

lemma JSON_value_revive: "JSON_value (revive j) = Some j"
proof (induction j)
  case (JArr js)
  then have "map (\<lambda>x. case JSON_value x of None \<Rightarrow> JNull | Some j \<Rightarrow> j) (map revive js) = js"
    by (induction js) simp_all
  then show ?case by simp
next
  case (JObj kvs)
  then have el: "\<forall>kv \<in> set kvs. JSON_value (revive (snd kv)) = Some (snd kv)"
    by (auto simp: snds.simps)
  have "concat (map (\<lambda>(k, v). case JSON_value v of None \<Rightarrow> [] | Some j \<Rightarrow> [(k, j)])
               (map (\<lambda>(k, j). (k, revive j)) kvs)) = kvs"
    using el by (induction kvs) (auto split: prod.splits)
  then show ?case by simp
qed simp_all

lemma revive_not_date: "revive j \<noteq> DateObj d"
  by (cases j) simp_all

lemma plain_copy_revive: "plain_copy (revive j) = revive j"
proof (cases j)
  case (JObj kvs)
  have "map (\<lambda>(k, v). (k, case v of DateObj d \<Rightarrow> Str (toISOString d) | _ \<Rightarrow> v))
          (map (\<lambda>(k, j). (k, revive j)) kvs) = map (\<lambda>(k, j). (k, revive j)) kvs"
  proof (induction kvs)
    case Nil
    show ?case by simp
  next
    case (Cons kv kvs)
    obtain k v where kv: "kv = (k, v)" by (cases kv)
    have "(case revive v of DateObj d \<Rightarrow> Str (toISOString d) | _ \<Rightarrow> revive v) = revive v"
      by (cases v) simp_all
    with Cons kv show ?case by simp
  qed
  with JObj show ?thesis by simp
qed simp_all

lemma valid_record_copy:
  assumes "valid_record w"
  shows "revive (case JSON_value w of None \<Rightarrow> JNull | Some j \<Rightarrow> j) = plain_copy w"
  using assms
proof induction
  case (running distance duration cadence lat lng now w)
  from running(1,3) obtain d t c la lo
    where fin: "distance = Fin d" "duration = Fin t" "cadence = Fin c" "lat = Fin la" "lng = Fin lo"
    by (auto simp: validInputs_def dest!: finite_cases)
  from Running_inv [OF running(4)] obtain s
    where "toFixed1 (jsdiv duration distance) = Some s" by blast
  from Running_Value [OF this, of now "Arr [Num lat, Num lng]" cadence] running(4)
  have "w = Obj RunningClass
            [(''date'', DateObj now),
             (''id'', Num (Fin (of_int (getTime now)))),
             (''coords'', Arr [Num lat, Num lng]),
             (''distance'', Num distance),
             (''duration'', Num duration),
             (''type'', Str ''running''),
             (''cadence'', Num cadence),
             (''pace'', Str s),
             (''description'', Str (description_text ''Running'' now))]"
    by simp
  with fin show ?case by simp
next
  case (cycling distance duration elevation lat lng now w)
  from cycling(1,3) obtain d t c la lo
    where fin: "distance = Fin d" "duration = Fin t" "elevation = Fin c" "lat = Fin la" "lng = Fin lo"
    by (auto simp: validInputs_def dest!: finite_cases)
  from Cycling_inv [OF cycling(4)] obtain s
    where "toFixed1 (jsdiv distance (jsdiv duration (Fin 60))) = Some s" by blast
  from Cycling_Value [OF this, of now "Arr [Num lat, Num lng]" elevation] cycling(4)
  have "w = Obj CyclingClass
            [(''date'', DateObj now),
             (''id'', Num (Fin (of_int (getTime now)))),
             (''coords'', Arr [Num lat, Num lng]),
             (''distance'', Num distance),
             (''duration'', Num duration),
             (''type'', Str ''cycling''),
             (''elevation'', Num elevation),
             (''speed'', Str s),
             (''description'', Str (description_text ''Cycling'' now))]"
    by simp
  with fin show ?case by simp
next
  case (stored w)
  define j where "j = (case JSON_value w of None \<Rightarrow> JNull | Some j \<Rightarrow> j)"
  with stored.IH have pc: "plain_copy w = revive j" by simp
  show ?case by (simp add: pc JSON_value_revive plain_copy_revive)
qed

text \<open>
  C1, as stated, fails: a record built by the constructor holds a \<^verbatim>\<open>Date\<close> object in
  \<open>date\<close>, and after saving and loading the field holds the ISO string of that date; the
  loaded object is a plain object.
\<close>

theorem roundtrip_changes_date:
  "valid_record sample_run
   \<and> read_prop sample_run ''date'' = DateObj sample_date
   \<and> loaded (saved [sample_run]) =
       Arr [Obj PlainObject
              [(''date'', Str ''2023-11-14T22:13:20.000Z''), (''id'', Num (Fin 1700000000000)),
               (''coords'', Arr [Num (Fin (3627 / 100)), Num (Fin (4999 / 100))]),
               (''distance'', Num (Fin 5)), (''duration'', Num (Fin 25)),
               (''type'', Str ''running''), (''cadence'', Num (Fin 180)),
               (''pace'', Str ''5.0''),
               (''description'', Str (description_text ''Running'' sample_date))]]
   \<and> loaded (saved [sample_run]) \<noteq> Arr [sample_run]"
  using valid_sample_run
  by (simp add: loaded_saved sample_run_def sample_date_def read_prop_def)

text \<open>
  C1, amended. For every sequence of valid records, saving and then loading returns, in the
  same order, for each record the plain object with the same properties and values, the
  date as its ISO string. A record that an earlier session stored comes back as it is.
\<close>

theorem roundtrip_plain_copy:
  assumes "\<forall>w \<in> set records. valid_record w"
  shows "loaded (saved records) = Arr (map plain_copy records)"
  using assms by (simp add: loaded_saved valid_record_copy)

theorem roundtrip_plain_copy_witness:
  "loaded (saved [sample_run, plain_copy sample_ride])
     = Arr [plain_copy sample_run, plain_copy sample_ride]"
proof -
  have "valid_record (plain_copy sample_ride)"
    using valid_sample_ride by (rule valid_record.stored)
  with roundtrip_plain_copy [of "[sample_run, plain_copy sample_ride]"] valid_sample_run
  show ?thesis by (simp add: sample_ride_def)
qed

subsection \<open>A click in the list\<close>

text \<open>
  C3. When no workout has the clicked id, \<^verbatim>\<open>find\<close> gives \<^verbatim>\<open>undefined\<close> and
  \<^verbatim>\<open>_moveToPopup\<close> raises a TypeError on reading its \<^verbatim>\<open>coords\<close>: the click is not a
  no-op. An instance: the start-up on a stored record whose id is the string "7", then a
  click on the list entry rendered for it.
\<close>

theorem list_click_missing_id_raises:
  assumes "workouts st = Arr ws" and "find_id ws ident = Value Undefined"
  shows "moveToPopup (Some ident) st = (Threw TypeError, st)"
  using assms by (simp add: moveToPopup_def)

theorem list_click_missing_id_raises_witness:
  "moveToPopup (Some (Fin 7))
     (snd (App [''workouts'' \<mapsto> JsonText (JArr [JObj [(''id'', JStr ''7''), (''coords'', JArr [JNum 1, JNum 2])]])]))
   = (Threw TypeError,
      snd (App [''workouts'' \<mapsto> JsonText (JArr [JObj [(''id'', JStr ''7''), (''coords'', JArr [JNum 1, JNum 2])]])]))"
proof -
  have "workouts (snd (App [''workouts'' \<mapsto> JsonText (JArr [JObj [(''id'', JStr ''7''), (''coords'', JArr [JNum 1, JNum 2])]])]))
          = Arr [Obj PlainObject [(''id'', Str ''7''), (''coords'', Arr [Num (Fin 1), Num (Fin 2)])]]"
    by (simp add: getLocalStorage_def App_def loadMap_def setMarkerIcon_def and_then_def
          do_call_def renderWorkout_def renderWorkoutMarker_def)
  moreover have "find_id [Obj PlainObject [(''id'', Str ''7''), (''coords'', Arr [Num (Fin 1), Num (Fin 2)])]] (Fin 7)
          = Value Undefined"
    by simp
  ultimately show ?thesis by (rule list_click_missing_id_raises)
qed

lemma moveToPopup_found:
  assumes "workouts st = Arr ws" and "find_id ws ident = Value w" and "get_prop w ''coords'' = Inr coords"
  shows "moveToPopup (Some ident) st = (Value (), st\<lparr>calls := calls st @ [map_setView_animated coords 17]\<rparr>)"
  using assms by (simp add: moveToPopup_def do_call_def mapZoomLevel_def)

subsection \<open>The ids of a session\<close>











end
